theory Spec2Isabelle
  imports Complex_Main
begin

section \<open>Identifiers, configuration and the libraries the routes call\<close>

text \<open>
  A MongoDB ObjectId is kept as the string that \<^verbatim>\<open>toString()\<close> prints: 24 lower-case
  hexadecimal digits. The routes compare ids through \<^verbatim>\<open>toString()\<close>, so equality of
  these strings is the comparison the code makes.
\<close>

type_synonym object_id = string

definition isHex :: "char \<Rightarrow> bool" where
  "isHex c = (c \<in> set ''0123456789abcdefABCDEF'')"

definition lowerHex :: "char \<Rightarrow> char" where
  "lowerHex c =
     (if c = CHR ''A'' then CHR ''a'' else if c = CHR ''B'' then CHR ''b''
      else if c = CHR ''C'' then CHR ''c'' else if c = CHR ''D'' then CHR ''d''
      else if c = CHR ''E'' then CHR ''e'' else if c = CHR ''F'' then CHR ''f'' else c)"

text \<open>Mongoose's cast of a request string to an ObjectId; \<open>None\<close> is a CastError.\<close>

definition castObjectId :: "string \<Rightarrow> object_id option" where
  "castObjectId s =
     (if length s = 24 \<and> list_all isHex s then Some (map lowerHex s) else None)"

text \<open>
  What a handler reads from its surroundings: the process environment, the clock, and the
  library functions whose code is outside the repository (validator.js's \<^verbatim>\<open>isEmail\<close>
  and float syntax, the cast of a string to a date, MongoDB's text index). They are parameters: every theorem below holds
  for whatever these functions compute.
\<close>

record env =
  JWT_SECRET :: "string option"  \<comment> \<open>\<^verbatim>\<open>process.env.JWT_SECRET\<close>\<close>
  now :: nat  \<comment> \<open>\<^verbatim>\<open>Date.now()\<close>, milliseconds\<close>
  currentYear :: int  \<comment> \<open>\<^verbatim>\<open>new Date().getFullYear()\<close>\<close>
  newObjectId :: object_id  \<comment> \<open>the id the driver gives a new document\<close>
  salt :: string  \<comment> \<open>the salt bcrypt draws for a new digest\<close>
  isEmail :: "string \<Rightarrow> bool"
  parseFloat :: "string \<Rightarrow> rat option"  \<comment> \<open>\<open>None\<close>: not a float literal\<close>
  castDate :: "string \<Rightarrow> nat option"  \<comment> \<open>Mongoose's cast to a Date; \<open>None\<close>: a CastError\<close>
  textMatch :: "string \<Rightarrow> string list \<Rightarrow> bool"
    \<comment> \<open>\<^verbatim>\<open>$text: { $search }\<close> against the indexed fields of one document\<close>

section \<open>Bearer tokens\<close>

text \<open>
  \<^verbatim>\<open>jwt.sign({ userId }, secret, { expiresIn: "24h" })\<close> of the jsonwebtoken
  library: the payload gets \<open>iat\<close>, the clock in whole seconds, and an expiration
  \<open>iat\<close> plus the lifetime; the signature is an HMAC of the payload under the secret,
  kept symbolically (two signatures are equal exactly when key and payload are).
\<close>

record jwt_payload =
  userId :: object_id
  iat :: nat
  expires :: nat  \<comment> \<open>the \<^verbatim>\<open>exp\<close> claim, seconds\<close>

datatype signature = HS256 string jwt_payload

datatype token = Malformed string | JWT jwt_payload signature

definition jwt_sign :: "object_id \<Rightarrow> string \<Rightarrow> nat \<Rightarrow> nat \<Rightarrow> token" where
  "jwt_sign uid secret expiresIn clock_ms =
     (let timestamp = clock_ms div 1000;
          p = \<lparr>userId = uid, iat = timestamp, expires = timestamp + expiresIn\<rparr>
      in JWT p (HS256 secret p))"

text \<open>\<^verbatim>\<open>process.env.JWT_SECRET || "your-secret-key"\<close>: an unset or empty variable is falsy.\<close>

definition secretOrKey :: "env \<Rightarrow> string" where
  "secretOrKey e =
     (case JWT_SECRET e of
        None \<Rightarrow> ''your-secret-key''
      | Some s \<Rightarrow> if s = [] then ''your-secret-key'' else s)"

text \<open>\<^verbatim>\<open>generateToken\<close> of the auth routes; \<^verbatim>\<open>"24h"\<close> is 86400 seconds.\<close>

definition generateToken :: "env \<Rightarrow> object_id \<Rightarrow> token" where
  "generateToken e uid = jwt_sign uid (secretOrKey e) (24 * 60 * 60) (now e)"

datatype auth_error = MissingCredentials | InvalidToken | ExpiredToken | UnauthorizedAccess

text \<open>
  Modelled from the spec: the token verifier of \<^verbatim>\<open>middleware/auth.js\<close>, which is not
  among the sources. The spec (4.2): verification checks structural validity, signature
  authenticity, and that the current time is before the embedded expiration; it fails with
  InvalidToken when the signature does not match or the structure is malformed, and with
  ExpiredToken when the expiration has passed. It reads the same process-wide secret as
  \<open>generateToken\<close>.
\<close>

definition verify :: "env \<Rightarrow> token \<Rightarrow> auth_error + object_id" where
  "verify e t =
     (case t of
        Malformed _ \<Rightarrow> Inl InvalidToken
      | JWT p sg \<Rightarrow>
          if sg \<noteq> HS256 (secretOrKey e) p then Inl InvalidToken
          else if now e div 1000 < expires p then Inr (userId p)
          else Inl ExpiredToken)"

definition payload_of :: "token \<Rightarrow> jwt_payload option" where
  "payload_of t = (case t of Malformed _ \<Rightarrow> None | JWT p _ \<Rightarrow> Some p)"

section \<open>Requests and responses\<close>

datatype auth_header = Bearer token | OtherScheme string

datatype http_method = GET | POST | PUT | DELETE

text \<open>
  A request as Express hands it to a route: the \<^verbatim>\<open>Authorization\<close> header, the path
  below the router's mount point split at \<^verbatim>\<open>/\<close>, the query string and the parsed
  body. Query and body are flat maps from field names to strings, which is what
  \<^verbatim>\<open>express.urlencoded\<close> delivers and what a JSON body of string values is; an absent
  key is JavaScript's \<^verbatim>\<open>undefined\<close>.
\<close>

record request =
  authorization :: "auth_header option"
  req_method :: http_method
  path :: "string list"
  query :: "string \<rightharpoonup> string"
  body :: "string \<rightharpoonup> string"

section \<open>Users\<close>

datatype role = User | Admin

text \<open>
  Modelled from the spec: the password hasher behind \<^verbatim>\<open>models/User.js\<close>, which is
  not among the sources. The spec (4.1): \<open>hash\<close> produces a salted one-way digest, fresh
  salt per call; \<open>verify\<close> recomputes with the salt embedded in the digest and returns
  whether it matches, and fails only for a malformed digest (CorruptCredential). The digest
  is symbolic: it records the salt and what was hashed.
\<close>

datatype digest = Bcrypt string string | Unreadable string

datatype store_error =
  CastError | ValidationError | DuplicateKey | ImmutableField | CorruptCredential | ServerError

definition bcrypt_hash :: "string \<Rightarrow> string \<Rightarrow> digest" where
  "bcrypt_hash slt plaintext = Bcrypt slt plaintext"

definition bcrypt_compare :: "string \<Rightarrow> digest \<Rightarrow> store_error + bool" where
  "bcrypt_compare plaintext d =
     (case d of Bcrypt slt hashed \<Rightarrow> Inr (hashed = plaintext)
      | Unreadable _ \<Rightarrow> Inl CorruptCredential)"

text \<open>
  Modelled from the spec: the User document of \<^verbatim>\<open>models/User.js\<close>, which is not among
  the sources; the fields are those of the spec (3) and of the README's User model.
\<close>

record user =
  user_id :: object_id
  username :: string
  email :: string
  password :: digest
  role :: role
  user_createdAt :: nat
  user_updatedAt :: nat

text \<open>\<^verbatim>\<open>user.toJSON()\<close>: the record without its password (spec, scenario 1).\<close>

record user_json =
  json_id :: object_id
  json_username :: string
  json_email :: string
  json_role :: role
  json_createdAt :: nat
  json_updatedAt :: nat

definition toJSON :: "user \<Rightarrow> user_json" where
  "toJSON u =
     \<lparr>json_id = user_id u, json_username = username u, json_email = email u,
      json_role = role u, json_createdAt = user_createdAt u,
      json_updatedAt = user_updatedAt u\<rparr>"

definition comparePassword :: "user \<Rightarrow> string \<Rightarrow> store_error + bool" where
  "comparePassword u candidate = bcrypt_compare candidate (password u)"

section \<open>Books\<close>

text \<open>The schema of \<^verbatim>\<open>models/Book.js\<close>, with the \<^verbatim>\<open>_id\<close> and the two timestamps.\<close>

record book =
  book_id :: object_id
  title :: string
  author :: string
  description :: "string option"
  genre :: "string option"
  year :: "int option"
  price :: "rat option"
  available :: bool
  addedBy :: object_id
  book_createdAt :: nat
  book_updatedAt :: nat

section \<open>The two stores\<close>

record db =
  users :: "user list"
  books :: "book list"

definition User_findById :: "db \<Rightarrow> object_id \<Rightarrow> user option" where
  "User_findById d i = find (\<lambda>u. user_id u = i) (users d)"

text \<open>\<^verbatim>\<open>User.findOne({ $or: [{ email }, { username }] })\<close>\<close>

definition User_findOne_or :: "db \<Rightarrow> string \<Rightarrow> string \<Rightarrow> user option" where
  "User_findOne_or d em un = find (\<lambda>u. email u = em \<or> username u = un) (users d)"

text \<open>\<^verbatim>\<open>User.findOne({ email })\<close>\<close>

definition User_findOne_email :: "db \<Rightarrow> string \<Rightarrow> user option" where
  "User_findOne_email d em = find (\<lambda>u. email u = em) (users d)"

text \<open>
  Modelled from the spec: the authentication middleware \<^verbatim>\<open>auth\<close> of
  \<^verbatim>\<open>middleware/auth.js\<close>, which is not among the sources. The spec (4.4): it extracts
  a bearer token from the \<^verbatim>\<open>Authorization: Bearer <token>\<close> header, absence or a
  malformed header failing with MissingCredentials; it delegates to the verifier; on
  success it resolves the User via the Credential Store by the verified identifier, and on
  failure to resolve fails with UnauthorizedAccess.
\<close>

definition auth :: "env \<Rightarrow> db \<Rightarrow> request \<Rightarrow> auth_error + user" where
  "auth e d req =
     (case authorization req of
        None \<Rightarrow> Inl MissingCredentials
      | Some (OtherScheme _) \<Rightarrow> Inl MissingCredentials
      | Some (Bearer t) \<Rightarrow>
          (case verify e t of
             Inl err \<Rightarrow> Inl err
           | Inr uid \<Rightarrow>
               (case User_findById d uid of
                  None \<Rightarrow> Inl UnauthorizedAccess
                | Some u \<Rightarrow> Inr u)))"

section \<open>Validation chains (express-validator)\<close>

type_synonym validation_error = "string \<times> string"  \<comment> \<open>field and message\<close>

text \<open>A validator sees the field as a string; \<^verbatim>\<open>undefined\<close> becomes the empty string.\<close>

definition field :: "(string \<rightharpoonup> string) \<Rightarrow> string \<Rightarrow> string" where
  "field b k = (case b k of None \<Rightarrow> [] | Some v \<Rightarrow> v)"

definition isLength :: "nat \<Rightarrow> nat option \<Rightarrow> string \<Rightarrow> bool" where
  "isLength mn mx s = (mn \<le> length s \<and> (case mx of None \<Rightarrow> True | Some m \<Rightarrow> length s \<le> m))"

definition isWordChar :: "char \<Rightarrow> bool" where
  "isWordChar c =
     (c \<in> set ''abcdefghijklmnopqrstuvwxyzABCDEFGHIJKLMNOPQRSTUVWXYZ0123456789_'')"

text \<open>\<^verbatim>\<open>.matches(/^[a-zA-Z0-9_]+$/)\<close>\<close>

definition matches_word :: "string \<Rightarrow> bool" where
  "matches_word s = (s \<noteq> [] \<and> list_all isWordChar s)"

definition check :: "bool \<Rightarrow> string \<Rightarrow> string \<Rightarrow> validation_error list" where
  "check ok param msg = (if ok then [] else [(param, msg)])"

text \<open>\<^verbatim>\<open>.optional()\<close>: the rest of the chain is skipped when the field is \<^verbatim>\<open>undefined\<close>.\<close>

definition optional :: "(string \<rightharpoonup> string) \<Rightarrow> string \<Rightarrow> validation_error list
    \<Rightarrow> validation_error list" where
  "optional b k errs = (case b k of None \<Rightarrow> [] | Some _ \<Rightarrow> errs)"

definition register_validation :: "env \<Rightarrow> (string \<rightharpoonup> string) \<Rightarrow> validation_error list" where
  "register_validation e b =
     check (isLength 3 (Some 30) (field b ''username'')) ''username''
       ''Username must be between 3 and 30 characters''
     @ check (matches_word (field b ''username'')) ''username''
       ''Username can only contain letters, numbers, and underscores''
     @ check (isEmail e (field b ''email'')) ''email'' ''Please enter a valid email''
     @ check (isLength 6 None (field b ''password'')) ''password''
       ''Password must be at least 6 characters long''"

definition login_validation :: "env \<Rightarrow> (string \<rightharpoonup> string) \<Rightarrow> validation_error list" where
  "login_validation e b =
     check (isEmail e (field b ''email'')) ''email'' ''Please enter a valid email''
     @ check (field b ''password'' \<noteq> []) ''password'' ''Password is required''"

definition profile_validation :: "env \<Rightarrow> (string \<rightharpoonup> string) \<Rightarrow> validation_error list" where
  "profile_validation e b =
     optional b ''username''
       (check (isLength 3 (Some 30) (field b ''username'')) ''username''
          ''Username must be between 3 and 30 characters'')
     @ optional b ''email''
       (check (isEmail e (field b ''email'')) ''email'' ''Please enter a valid email'')"

section \<open>Responses\<close>

text \<open>A book as the routes send it: \<^verbatim>\<open>populate("addedBy", "username email")\<close> puts the
  owner's id, username and email in place of the reference, or \<^verbatim>\<open>null\<close> when no such
  user exists.\<close>

type_synonym book_json = "book \<times> (object_id \<times> string \<times> string) option"

record pagination =
  page :: int
  limit :: int
  total :: int
  pages :: int

datatype reply =
    Err string  \<comment> \<open>\<^verbatim>\<open>{ error }\<close>\<close>
  | ValidationErrors "validation_error list"  \<comment> \<open>\<^verbatim>\<open>{ errors: errors.array() }\<close>\<close>
  | AuthResponse string user_json token  \<comment> \<open>\<^verbatim>\<open>{ message, user, token }\<close>\<close>
  | Profile user_json  \<comment> \<open>\<^verbatim>\<open>{ user }\<close>\<close>
  | ProfileUpdated string user_json  \<comment> \<open>\<^verbatim>\<open>{ message, user }\<close>\<close>
  | BooksPage "book_json list" pagination  \<comment> \<open>\<^verbatim>\<open>{ books, pagination }\<close>\<close>
  | BookOnly book_json  \<comment> \<open>\<^verbatim>\<open>{ book }\<close>\<close>
  | BookMessage string "book_json option"  \<comment> \<open>\<^verbatim>\<open>{ message, book }\<close>\<close>
  | Message string  \<comment> \<open>\<^verbatim>\<open>{ message }\<close>\<close>
  | Genres "string list"  \<comment> \<open>\<^verbatim>\<open>{ genres }\<close>\<close>
  | AuthFailure auth_error  \<comment> \<open>the middleware's refusal\<close>

type_synonym response = "nat \<times> reply"  \<comment> \<open>status and JSON body\<close>

definition token_of :: "response \<Rightarrow> token option" where
  "token_of r = (case snd r of AuthResponse _ _ t \<Rightarrow> Some t | _ \<Rightarrow> None)"

section \<open>The Credential Store's writes\<close>

fun update_first :: "('a \<Rightarrow> bool) \<Rightarrow> ('a \<Rightarrow> 'a) \<Rightarrow> 'a list \<Rightarrow> 'a list" where
  "update_first P f [] = []"
| "update_first P f (x # xs) = (if P x then f x # xs else x # update_first P f xs)"

fun delete_first :: "('a \<Rightarrow> bool) \<Rightarrow> 'a list \<Rightarrow> 'a list" where
  "delete_first P [] = []"
| "delete_first P (x # xs) = (if P x then xs else x # delete_first P xs)"

text \<open>
  Modelled from the spec: the schema validators of \<^verbatim>\<open>models/User.js\<close>, which is not
  among the sources. The spec (3): username of 3 to 30 characters, alphanumeric and
  underscore; email of valid email syntax.
\<close>

definition username_valid :: "string \<Rightarrow> bool" where
  "username_valid un = (isLength 3 (Some 30) un \<and> matches_word un)"

text \<open>
  \<^verbatim>\<open>new User({ username, email, password })\<close> followed by \<^verbatim>\<open>user.save()\<close>. Modelled
  from the spec: User.js hashes the supplied plaintext before persisting (4.1) and the role
  defaults to \<^verbatim>\<open>user\<close> (3). The unique indexes on \<^verbatim>\<open>email\<close> and \<^verbatim>\<open>username\<close> are
  those \<^verbatim>\<open>mongo-init.js\<close> creates: the store refuses a second document with either, and
  the driver raises its duplicate-key error.
\<close>

definition User_save :: "env \<Rightarrow> db \<Rightarrow> string \<Rightarrow> string \<Rightarrow> string \<Rightarrow> store_error + (db \<times> user)" where
  "User_save e d un em pw =
     (let u = \<lparr>user_id = newObjectId e, username = un, email = em,
                password = bcrypt_hash (salt e) pw, role = User,
                user_createdAt = now e, user_updatedAt = now e\<rparr>
      in if \<not> (username_valid un \<and> isEmail e em) then Inl ValidationError
         else if list_ex (\<lambda>v. user_id v = user_id u \<or> email v = em \<or> username v = un) (users d)
         then Inl DuplicateKey
         else Inr (d\<lparr>users := users d @ [u]\<rparr>, u))"

text \<open>
  \<^verbatim>\<open>User.findByIdAndUpdate(id, updates, { new: true, runValidators: true })\<close> where
  \<open>updates\<close> holds at most a username and an email: the validators of the paths being
  set run first, the first document with the id is changed, and the changed document is
  returned (\<^verbatim>\<open>null\<close> when there is none).
\<close>

definition User_findByIdAndUpdate ::
  "env \<Rightarrow> db \<Rightarrow> object_id \<Rightarrow> string option \<Rightarrow> string option \<Rightarrow> store_error + (db \<times> user option)" where
  "User_findByIdAndUpdate e d i un em =
     (if \<not> ((case un of None \<Rightarrow> True | Some n \<Rightarrow> username_valid n)
            \<and> (case em of None \<Rightarrow> True | Some m \<Rightarrow> isEmail e m))
      then Inl ValidationError
      else case User_findById d i of
        None \<Rightarrow> Inr (d, None)
      | Some u \<Rightarrow>
          (let change = (\<lambda>v. v\<lparr>username := (case un of None \<Rightarrow> username v | Some n \<Rightarrow> n),
                                 email := (case em of None \<Rightarrow> email v | Some m \<Rightarrow> m),
                                 user_updatedAt := now e\<rparr>)
           in if list_ex (\<lambda>v. email v = email (change u) \<or> username v = username (change u))
                   (delete_first (\<lambda>v. user_id v = i) (users d))
              then Inl DuplicateKey
              else Inr (d\<lparr>users := update_first (\<lambda>v. user_id v = i) change (users d)\<rparr>,
                        Some (change u))))"

section \<open>The auth routes\<close>

text \<open>
  \<^verbatim>\<open>POST /register\<close>. The handler awaits the store twice, once for
  \<^verbatim>\<open>User.findOne\<close> and once for \<^verbatim>\<open>user.save()\<close>; \<open>d\<close> is the store as the first call
  sees it and \<open>d_save\<close> the store as the second call sees it, which other requests may
  have written to in between. The store returned is the store after the handler's last
  call.
\<close>

definition register_at :: "env \<Rightarrow> db \<Rightarrow> db \<Rightarrow> request \<Rightarrow> db \<times> response" where
  "register_at e d d_save req =
     (let errors = register_validation e (body req) in
      if errors \<noteq> [] then (d, 400, ValidationErrors errors)
      else
        let username = field (body req) ''username'';
            email = field (body req) ''email'';
            password = field (body req) ''password''
        in case User_findOne_or d email username of
             Some existingUser \<Rightarrow>
               (d, 400, Err ''User with this email or username already exists'')
           | None \<Rightarrow>
               (case User_save e d_save username email password of
                  Inl error \<Rightarrow> (d_save, 500, Err ''Registration failed'')
                | Inr (d', user) \<Rightarrow>
                    (d', 201, AuthResponse ''User registered successfully'' (toJSON user)
                                (generateToken e (user_id user)))))"

text \<open>The handler run with no other request writing between its two calls.\<close>

definition register :: "env \<Rightarrow> db \<Rightarrow> request \<Rightarrow> db \<times> response" where
  "register e d req = register_at e d d req"

text \<open>\<^verbatim>\<open>POST /login\<close>; it writes nothing.\<close>

definition login :: "env \<Rightarrow> db \<Rightarrow> request \<Rightarrow> response" where
  "login e d req =
     (let errors = login_validation e (body req) in
      if errors \<noteq> [] then (400, ValidationErrors errors)
      else
        let email = field (body req) ''email'';
            password = field (body req) ''password''
        in case User_findOne_email d email of
             None \<Rightarrow> (401, Err ''Invalid email or password'')
           | Some user \<Rightarrow>
               (case comparePassword user password of
                  Inl error \<Rightarrow> (500, Err ''Login failed'')
                | Inr isPasswordValid \<Rightarrow>
                    if \<not> isPasswordValid then (401, Err ''Invalid email or password'')
                    else (200, AuthResponse ''Login successful'' (toJSON user)
                                 (generateToken e (user_id user)))))"

text \<open>\<^verbatim>\<open>GET /profile\<close>, after \<open>auth\<close> has put the user in \<^verbatim>\<open>req.user\<close>.\<close>

definition get_profile :: "user \<Rightarrow> response" where
  "get_profile req_user = (200, Profile (toJSON req_user))"

text \<open>\<^verbatim>\<open>if (username) updates.username = username\<close>: the empty string is falsy.\<close>

definition truthy :: "string option \<Rightarrow> string option" where
  "truthy v = (case v of None \<Rightarrow> None | Some s \<Rightarrow> if s = [] then None else Some s)"

text \<open>\<^verbatim>\<open>PUT /profile\<close>. A \<^verbatim>\<open>null\<close> result makes \<^verbatim>\<open>user.toJSON()\<close> throw, which the
  handler's \<^verbatim>\<open>catch\<close> turns into the 500.\<close>

definition put_profile :: "env \<Rightarrow> db \<Rightarrow> user \<Rightarrow> request \<Rightarrow> db \<times> response" where
  "put_profile e d req_user req =
     (let errors = profile_validation e (body req) in
      if errors \<noteq> [] then (d, 400, ValidationErrors errors)
      else
        let username = truthy (body req ''username'');
            email = truthy (body req ''email'')
        in case User_findByIdAndUpdate e d (user_id req_user) username email of
             Inl error \<Rightarrow> (d, 500, Err ''Failed to update profile'')
           | Inr (d', None) \<Rightarrow> (d', 500, Err ''Failed to update profile'')
           | Inr (d', Some user) \<Rightarrow>
               (d', 200, ProfileUpdated ''Profile updated successfully'' (toJSON user)))"

text \<open>The router of the auth routes: which handler runs, and behind which middleware.\<close>

definition auth_router :: "env \<Rightarrow> db \<Rightarrow> request \<Rightarrow> db \<times> response" where
  "auth_router e d req =
     (if req_method req = POST \<and> path req = [''register''] then register e d req
      else if req_method req = POST \<and> path req = [''login''] then (d, login e d req)
      else if req_method req = GET \<and> path req = [''profile''] then
        (case auth e d req of
           Inl err \<Rightarrow> (d, 401, AuthFailure err)
         | Inr req_user \<Rightarrow> (d, get_profile req_user))
      else if req_method req = PUT \<and> path req = [''profile''] then
        (case auth e d req of
           Inl err \<Rightarrow> (d, 401, AuthFailure err)
         | Inr req_user \<Rightarrow> put_profile e d req_user req)
      else (d, 404, Err ''Route not found''))"

section \<open>Strings and numbers as the libraries read them\<close>

definition isSpace :: "char \<Rightarrow> bool" where
  "isSpace c = (c \<in> set [CHR '' '', CHR 0x09, CHR 0x0A, CHR 0x0B, CHR 0x0C, CHR 0x0D])"

text \<open>\<^verbatim>\<open>trim: true\<close> of the schema's string paths.\<close>

definition trim :: "string \<Rightarrow> string" where
  "trim s = rev (dropWhile isSpace (rev (dropWhile isSpace s)))"

definition isDigit :: "char \<Rightarrow> bool" where
  "isDigit c = (c \<in> set ''0123456789'')"

definition digitVal :: "char \<Rightarrow> nat" where
  "digitVal c =
     (if isDigit c then of_char c - 48
      else if c \<in> set ''abcdef'' then of_char c - 87
      else of_char c - 55)"

definition numeral_of :: "nat \<Rightarrow> string \<Rightarrow> nat" where
  "numeral_of radix ds = foldl (\<lambda>n c. radix * n + digitVal c) 0 ds"

text \<open>validator.js's integer syntax \<^verbatim>\<open>/^[-+]?[0-9]+$/\<close>, with the number it denotes.\<close>

definition intLiteral :: "string \<Rightarrow> int option" where
  "intLiteral s =
     (let neg = (s \<noteq> [] \<and> hd s = CHR ''-'');
          ds = (if s \<noteq> [] \<and> (hd s = CHR ''-'' \<or> hd s = CHR ''+'') then tl s else s)
      in if ds \<noteq> [] \<and> list_all isDigit ds
         then Some (if neg then - int (numeral_of 10 ds) else int (numeral_of 10 ds))
         else None)"

definition isInt :: "int \<Rightarrow> int \<Rightarrow> string \<Rightarrow> bool" where
  "isInt mn mx s = (case intLiteral s of None \<Rightarrow> False | Some n \<Rightarrow> mn \<le> n \<and> n \<le> mx)"

definition isFloat :: "env \<Rightarrow> rat \<Rightarrow> string \<Rightarrow> bool" where
  "isFloat e mn s = (case parseFloat e s of None \<Rightarrow> False | Some x \<Rightarrow> mn \<le> x)"

definition isBoolean :: "string \<Rightarrow> bool" where
  "isBoolean s = (s \<in> set [''true'', ''false'', ''1'', ''0''])"

text \<open>Mongoose's cast of a string to a Boolean.\<close>

definition castBoolean :: "string \<Rightarrow> bool option" where
  "castBoolean s =
     (if s \<in> set [''true'', ''1'', ''yes''] then Some True
      else if s \<in> set [''false'', ''0'', ''no''] then Some False
      else None)"

text \<open>
  JavaScript's \<^verbatim>\<open>parseInt\<close> with no radix: leading white space is skipped, a sign is
  read, \<^verbatim>\<open>0x\<close> announces hexadecimal, and the longest run of digits is the number;
  \<open>None\<close> is \<^verbatim>\<open>NaN\<close>.
\<close>

definition parseInt :: "string \<Rightarrow> int option" where
  "parseInt s =
     (let t = dropWhile isSpace s;
          neg = (t \<noteq> [] \<and> hd t = CHR ''-'');
          r = (if t \<noteq> [] \<and> (hd t = CHR ''-'' \<or> hd t = CHR ''+'') then tl t else t);
          hex = (take 2 r = ''0x'' \<or> take 2 r = ''0X'');
          ds = (if hex then takeWhile isHex (drop 2 r) else takeWhile isDigit r);
          n = int (numeral_of (if hex then 16 else 10) ds)
      in if ds = [] then None else Some (if neg then - n else n))"

text \<open>\<^verbatim>\<open>parseInt(v) || dflt\<close>: \<^verbatim>\<open>NaN\<close> and 0 are falsy. An absent parameter is
  \<^verbatim>\<open>undefined\<close>, which \<^verbatim>\<open>parseInt\<close> reads as the string \<^verbatim>\<open>"undefined"\<close>.\<close>

definition parseInt_or :: "string option \<Rightarrow> int \<Rightarrow> int" where
  "parseInt_or v dflt =
     (case parseInt (case v of None \<Rightarrow> ''undefined'' | Some s \<Rightarrow> s) of
        None \<Rightarrow> dflt
      | Some n \<Rightarrow> if n = 0 then dflt else n)"

section \<open>Validation chains of the book routes\<close>

definition book_optional_validation :: "env \<Rightarrow> (string \<rightharpoonup> string) \<Rightarrow> validation_error list" where
  "book_optional_validation e b =
     optional b ''description''
       (check (isLength 0 (Some 1000) (field b ''description'')) ''description''
          ''Description must be less than 1000 characters'')
     @ optional b ''genre''
       (check (isLength 0 (Some 50) (field b ''genre'')) ''genre''
          ''Genre must be less than 50 characters'')
     @ optional b ''year''
       (check (isInt 1000 (currentYear e) (field b ''year'')) ''year''
          ''Year must be a valid year'')
     @ optional b ''price''
       (check (isFloat e 0 (field b ''price'')) ''price''
          ''Price must be a non-negative number'')
     @ optional b ''available''
       (check (isBoolean (field b ''available'')) ''available''
          ''Available must be a boolean value'')"

definition post_book_validation :: "env \<Rightarrow> (string \<rightharpoonup> string) \<Rightarrow> validation_error list" where
  "post_book_validation e b =
     check (field b ''title'' \<noteq> []) ''title'' ''Title is required''
     @ check (isLength 0 (Some 200) (field b ''title'')) ''title''
         ''Title must be less than 200 characters''
     @ check (field b ''author'' \<noteq> []) ''author'' ''Author is required''
     @ check (isLength 0 (Some 100) (field b ''author'')) ''author''
         ''Author must be less than 100 characters''
     @ book_optional_validation e b"

definition put_book_validation :: "env \<Rightarrow> (string \<rightharpoonup> string) \<Rightarrow> validation_error list" where
  "put_book_validation e b =
     optional b ''title''
       (check (isLength 0 (Some 200) (field b ''title'')) ''title''
          ''Title must be less than 200 characters'')
     @ optional b ''author''
       (check (isLength 0 (Some 100) (field b ''author'')) ''author''
          ''Author must be less than 100 characters'')
     @ book_optional_validation e b"

section \<open>The Resource Store (Mongoose on the Book schema)\<close>

text \<open>
  What Mongoose makes of an object handed to \<^verbatim>\<open>new Book(...)\<close> or to
  \<^verbatim>\<open>findByIdAndUpdate\<close>: the schema's paths, \<^verbatim>\<open>_id\<close> and \<^verbatim>\<open>createdAt\<close>, each cast
  to its type; any other key is dropped (strict mode). The version key is not part of the
  model.
\<close>

record book_patch =
  set_id :: "object_id option"
  set_title :: "string option"
  set_author :: "string option"
  set_description :: "string option"
  set_genre :: "string option"
  set_year :: "int option"
  set_price :: "rat option"
  set_available :: "bool option"
  set_addedBy :: "object_id option"
  set_createdAt :: "nat option"

definition cast_fails :: "(string \<rightharpoonup> string) \<Rightarrow> string \<Rightarrow> (string \<Rightarrow> 'a option) \<Rightarrow> bool" where
  "cast_fails b k c = (case b k of None \<Rightarrow> False | Some v \<Rightarrow> c v = None)"

definition book_cast :: "env \<Rightarrow> (string \<rightharpoonup> string) \<Rightarrow> store_error + book_patch" where
  "book_cast e b =
     (if cast_fails b ''_id'' castObjectId \<or> cast_fails b ''year'' intLiteral
         \<or> cast_fails b ''price'' (parseFloat e) \<or> cast_fails b ''available'' castBoolean
         \<or> cast_fails b ''addedBy'' castObjectId \<or> cast_fails b ''createdAt'' (castDate e)
      then Inl CastError
      else Inr \<lparr>set_id = Option.bind (b ''_id'') castObjectId,
                set_title = map_option trim (b ''title''),
                set_author = map_option trim (b ''author''),
                set_description = map_option trim (b ''description''),
                set_genre = map_option trim (b ''genre''),
                set_year = Option.bind (b ''year'') intLiteral,
                set_price = Option.bind (b ''price'') (parseFloat e),
                set_available = Option.bind (b ''available'') castBoolean,
                set_addedBy = Option.bind (b ''addedBy'') castObjectId,
                set_createdAt = Option.bind (b ''createdAt'') (castDate e)\<rparr>)"

text \<open>The schema's validators on the paths a patch sets: \<^verbatim>\<open>required\<close>,
  \<^verbatim>\<open>maxlength\<close>, \<^verbatim>\<open>min\<close> and \<^verbatim>\<open>max\<close>.\<close>

definition when_set :: "'a option \<Rightarrow> ('a \<Rightarrow> bool) \<Rightarrow> bool" where
  "when_set v P = (case v of None \<Rightarrow> True | Some x \<Rightarrow> P x)"

definition book_patch_valid :: "env \<Rightarrow> book_patch \<Rightarrow> bool" where
  "book_patch_valid e p =
     (when_set (set_title p) (\<lambda>t. t \<noteq> [] \<and> length t \<le> 200)
      \<and> when_set (set_author p) (\<lambda>a. a \<noteq> [] \<and> length a \<le> 100)
      \<and> when_set (set_description p) (\<lambda>s. length s \<le> 1000)
      \<and> when_set (set_genre p) (\<lambda>g. length g \<le> 50)
      \<and> when_set (set_year p) (\<lambda>y. 1000 \<le> y \<and> y \<le> currentYear e)
      \<and> when_set (set_price p) (\<lambda>x. 0 \<le> x))"

definition or_else :: "'a option \<Rightarrow> 'a \<Rightarrow> 'a" where
  "or_else v dflt = (case v of None \<Rightarrow> dflt | Some x \<Rightarrow> x)"

definition keep_or :: "'a option \<Rightarrow> 'a option \<Rightarrow> 'a option" where
  "keep_or v old = (case v of None \<Rightarrow> old | Some x \<Rightarrow> Some x)"

text \<open>\<^verbatim>\<open>$set\<close> of a patch on a stored book. \<^verbatim>\<open>createdAt\<close> is immutable and
  \<^verbatim>\<open>updatedAt\<close> is overwritten with the clock (the schema's \<^verbatim>\<open>timestamps: true\<close>).\<close>

definition apply_patch :: "env \<Rightarrow> book_patch \<Rightarrow> book \<Rightarrow> book" where
  "apply_patch e p k =
     k\<lparr>title := or_else (set_title p) (title k),
       author := or_else (set_author p) (author k),
       description := keep_or (set_description p) (description k),
       genre := keep_or (set_genre p) (genre k),
       year := keep_or (set_year p) (year k),
       price := keep_or (set_price p) (price k),
       available := or_else (set_available p) (available k),
       addedBy := or_else (set_addedBy p) (addedBy k),
       book_updatedAt := now e\<rparr>"

text \<open>\<^verbatim>\<open>Book.findById(id)\<close>: an id that is no ObjectId is a CastError.\<close>

definition Book_findById :: "db \<Rightarrow> string \<Rightarrow> store_error + book option" where
  "Book_findById d i =
     (case castObjectId i of
        None \<Rightarrow> Inl CastError
      | Some j \<Rightarrow> Inr (find (\<lambda>k. book_id k = j) (books d)))"

text \<open>\<^verbatim>\<open>Book.findByIdAndUpdate(id, update, { new: true, runValidators: true })\<close>: the
  update is cast and validated, the first book with the id is changed and returned
  (\<^verbatim>\<open>null\<close> when there is none); the server refuses a change of \<^verbatim>\<open>_id\<close>.\<close>

definition Book_findByIdAndUpdate ::
  "env \<Rightarrow> db \<Rightarrow> string \<Rightarrow> (string \<rightharpoonup> string) \<Rightarrow> store_error + (db \<times> book option)" where
  "Book_findByIdAndUpdate e d i update =
     (case castObjectId i of
        None \<Rightarrow> Inl CastError
      | Some j \<Rightarrow>
          (case book_cast e update of
             Inl err \<Rightarrow> Inl err
           | Inr p \<Rightarrow>
               if \<not> book_patch_valid e p then Inl ValidationError
               else case find (\<lambda>k. book_id k = j) (books d) of
                 None \<Rightarrow> Inr (d, None)
               | Some k \<Rightarrow>
                   if when_set (set_id p) (\<lambda>x. x = j)
                   then Inr (d\<lparr>books := update_first (\<lambda>k. book_id k = j) (apply_patch e p) (books d)\<rparr>,
                             Some (apply_patch e p k))
                   else Inl ImmutableField))"

text \<open>\<^verbatim>\<open>Book.findByIdAndDelete(id)\<close>\<close>

definition Book_findByIdAndDelete :: "db \<Rightarrow> string \<Rightarrow> store_error + db" where
  "Book_findByIdAndDelete d i =
     (case castObjectId i of
        None \<Rightarrow> Inl CastError
      | Some j \<Rightarrow> Inr (d\<lparr>books := delete_first (\<lambda>k. book_id k = j) (books d)\<rparr>))"

text \<open>
  \<^verbatim>\<open>new Book(bookData)\<close> followed by \<^verbatim>\<open>book.save()\<close>: the defaults of the schema,
  a fresh \<^verbatim>\<open>_id\<close> unless the data brings one, the two timestamps, the validators, and
  the unique index on \<^verbatim>\<open>_id\<close>. \<open>owner\<close> is the \<^verbatim>\<open>addedBy\<close> the route writes over
  whatever the data holds.
\<close>

definition Book_save ::
  "env \<Rightarrow> db \<Rightarrow> (string \<rightharpoonup> string) \<Rightarrow> object_id \<Rightarrow> store_error + (db \<times> book)" where
  "Book_save e d bookData owner =
     (case book_cast e (bookData(''addedBy'' := None)) of
        Inl err \<Rightarrow> Inl ValidationError
      | Inr p \<Rightarrow>
          if set_title p = None \<or> set_author p = None \<or> \<not> book_patch_valid e p
          then Inl ValidationError
          else
            let created = or_else (set_createdAt p) (now e);
                k = \<lparr>book_id = or_else (set_id p) (newObjectId e),
                     title = or_else (set_title p) [], author = or_else (set_author p) [],
                     description = set_description p, genre = set_genre p,
                     year = set_year p, price = set_price p,
                     available = or_else (set_available p) True, addedBy = owner,
                     book_createdAt = created, book_updatedAt = created\<rparr>
            in if list_ex (\<lambda>x. book_id x = book_id k) (books d) then Inl DuplicateKey
               else Inr (d\<lparr>books := books d @ [k]\<rparr>, k))"

text \<open>\<^verbatim>\<open>.populate("addedBy", "username email")\<close>\<close>

definition populate :: "db \<Rightarrow> book \<Rightarrow> book_json" where
  "populate d k =
     (k, map_option (\<lambda>u. (user_id u, username u, email u)) (User_findById d (addedBy k)))"

text \<open>
  \<^verbatim>\<open>Book.find(query).populate(...).sort({ createdAt: -1 }).skip(skip).limit(limit)\<close>:
  the filter, newest first, then the page. The server refuses a negative skip; a negative
  limit asks for that many documents in one batch.
\<close>

definition Book_find_page ::
  "db \<Rightarrow> (book \<Rightarrow> bool) \<Rightarrow> int \<Rightarrow> int \<Rightarrow> store_error + book_json list" where
  "Book_find_page d matches skip lmt =
     (if skip < 0 then Inl ServerError
      else Inr (map (populate d)
             (take (nat \<bar>lmt\<bar>) (drop (nat skip)
                (sort_key (\<lambda>k. - int (book_createdAt k)) (filter matches (books d)))))))"

definition Book_countDocuments :: "db \<Rightarrow> (book \<Rightarrow> bool) \<Rightarrow> int" where
  "Book_countDocuments d matches = int (length (filter matches (books d)))"

text \<open>\<^verbatim>\<open>Book.distinct("genre")\<close>\<close>

definition Book_distinct_genre :: "db \<Rightarrow> string list" where
  "Book_distinct_genre d = remdups (List.map_filter genre (books d))"

section \<open>The book routes\<close>

text \<open>\<^verbatim>\<open>GET /\<close>: a page of books, filtered by text search, genre and availability.\<close>

definition get_books :: "env \<Rightarrow> db \<Rightarrow> request \<Rightarrow> response" where
  "get_books e d req =
     (let page = parseInt_or (query req ''page'') 1;
          limit = parseInt_or (query req ''limit'') 10;
          search = field (query req) ''search'';
          genre' = field (query req) ''genre'';
          available' = query req ''available'';
          matches = (\<lambda>k.
            (search = [] \<or> textMatch e search [title k, author k, or_else (description k) []])
            \<and> (genre' = [] \<or> genre k = Some genre')
            \<and> (case available' of None \<Rightarrow> True | Some a \<Rightarrow> available k = (a = ''true'')));
          skip = (page - 1) * limit
      in case Book_find_page d matches skip limit of
           Inl error \<Rightarrow> (500, Err ''Failed to fetch books'')
         | Inr books' \<Rightarrow>
             (let total = Book_countDocuments d matches
              in (200, BooksPage books'
                    \<lparr>page = page, limit = limit, total = total,
                     pages = \<lceil>rat_of_int total / rat_of_int limit\<rceil>\<rparr>)))"

text \<open>\<^verbatim>\<open>GET /:id\<close>\<close>

definition get_book :: "db \<Rightarrow> string \<Rightarrow> response" where
  "get_book d i =
     (case Book_findById d i of
        Inl error \<Rightarrow> (500, Err ''Failed to fetch book'')
      | Inr None \<Rightarrow> (404, Err ''Book not found'')
      | Inr (Some book) \<Rightarrow> (200, BookOnly (populate d book)))"

text \<open>\<^verbatim>\<open>POST /\<close>, after \<open>auth\<close>: \<^verbatim>\<open>{ ...req.body, addedBy: req.user._id }\<close> is saved
  and read back populated.\<close>

definition post_book :: "env \<Rightarrow> db \<Rightarrow> user \<Rightarrow> request \<Rightarrow> db \<times> response" where
  "post_book e d req_user req =
     (let errors = post_book_validation e (body req) in
      if errors \<noteq> [] then (d, 400, ValidationErrors errors)
      else case Book_save e d (body req) (user_id req_user) of
        Inl error \<Rightarrow> (d, 500, Err ''Failed to create book'')
      | Inr (d', book) \<Rightarrow>
          (d', 201, BookMessage ''Book created successfully''
                     (map_option (populate d')
                        (find (\<lambda>k. book_id k = book_id book) (books d')))))"

text \<open>\<^verbatim>\<open>PUT /:id\<close>, after \<open>auth\<close>: validation, lookup, the owner-or-admin check, then
  \<^verbatim>\<open>findByIdAndUpdate(req.params.id, req.body, ...)\<close>.\<close>

definition put_book :: "env \<Rightarrow> db \<Rightarrow> user \<Rightarrow> string \<Rightarrow> request \<Rightarrow> db \<times> response" where
  "put_book e d req_user i req =
     (let errors = put_book_validation e (body req) in
      if errors \<noteq> [] then (d, 400, ValidationErrors errors)
      else case Book_findById d i of
        Inl error \<Rightarrow> (d, 500, Err ''Failed to update book'')
      | Inr None \<Rightarrow> (d, 404, Err ''Book not found'')
      | Inr (Some book) \<Rightarrow>
          if addedBy book \<noteq> user_id req_user \<and> role req_user \<noteq> Admin
          then (d, 403, Err ''Access denied. You can only update your own books.'')
          else case Book_findByIdAndUpdate e d i (body req) of
            Inl error \<Rightarrow> (d, 500, Err ''Failed to update book'')
          | Inr (d', updatedBook) \<Rightarrow>
              (d', 200, BookMessage ''Book updated successfully''
                         (map_option (populate d') updatedBook)))"

text \<open>\<^verbatim>\<open>DELETE /:id\<close>, after \<open>auth\<close>.\<close>

definition delete_book :: "db \<Rightarrow> user \<Rightarrow> string \<Rightarrow> db \<times> response" where
  "delete_book d req_user i =
     (case Book_findById d i of
        Inl error \<Rightarrow> (d, 500, Err ''Failed to delete book'')
      | Inr None \<Rightarrow> (d, 404, Err ''Book not found'')
      | Inr (Some book) \<Rightarrow>
          if addedBy book \<noteq> user_id req_user \<and> role req_user \<noteq> Admin
          then (d, 403, Err ''Access denied. You can only delete your own books.'')
          else case Book_findByIdAndDelete d i of
            Inl error \<Rightarrow> (d, 500, Err ''Failed to delete book'')
          | Inr d' \<Rightarrow> (d', 200, Message ''Book deleted successfully''))"

text \<open>\<^verbatim>\<open>GET /user/my-books\<close>, after \<open>auth\<close>.\<close>

definition my_books :: "db \<Rightarrow> user \<Rightarrow> request \<Rightarrow> response" where
  "my_books d req_user req =
     (let page = parseInt_or (query req ''page'') 1;
          limit = parseInt_or (query req ''limit'') 10;
          skip = (page - 1) * limit;
          matches = (\<lambda>k. addedBy k = user_id req_user)
      in case Book_find_page d matches skip limit of
           Inl error \<Rightarrow> (500, Err ''Failed to fetch user books'')
         | Inr books' \<Rightarrow>
             (let total = Book_countDocuments d matches
              in (200, BooksPage books'
                    \<lparr>page = page, limit = limit, total = total,
                     pages = \<lceil>rat_of_int total / rat_of_int limit\<rceil>\<rparr>)))"

text \<open>\<^verbatim>\<open>GET /genres/list\<close>\<close>

definition genres_list :: "db \<Rightarrow> response" where
  "genres_list d = (200, Genres (filter (\<lambda>genre. genre \<noteq> []) (Book_distinct_genre d)))"

text \<open>
  The router of the book routes, in the order the routes are registered: which handler
  runs, and whether \<open>auth\<close> stands before it. A request \<open>auth\<close> refuses is answered with
  401 and never reaches the handler.
\<close>

definition with_auth ::
  "env \<Rightarrow> db \<Rightarrow> request \<Rightarrow> (user \<Rightarrow> db \<times> response) \<Rightarrow> db \<times> response" where
  "with_auth e d req handler =
     (case auth e d req of
        Inl err \<Rightarrow> (d, 401, AuthFailure err)
      | Inr req_user \<Rightarrow> handler req_user)"

definition books_router :: "env \<Rightarrow> db \<Rightarrow> request \<Rightarrow> db \<times> response" where
  "books_router e d req =
     (if req_method req = GET \<and> path req = [] then (d, get_books e d req)
      else if req_method req = GET \<and> length (path req) = 1 then (d, get_book d (hd (path req)))
      else if req_method req = POST \<and> path req = [] then
        with_auth e d req (\<lambda>req_user. post_book e d req_user req)
      else if req_method req = PUT \<and> length (path req) = 1 then
        with_auth e d req (\<lambda>req_user. put_book e d req_user (hd (path req)) req)
      else if req_method req = DELETE \<and> length (path req) = 1 then
        with_auth e d req (\<lambda>req_user. delete_book d req_user (hd (path req)))
      else if req_method req = GET \<and> path req = [''user'', ''my-books''] then
        with_auth e d req (\<lambda>req_user. (d, my_books d req_user req))
      else if req_method req = GET \<and> path req = [''genres'', ''list''] then (d, genres_list d)
      else (d, 404, Err ''Route not found''))"

section \<open>Sample data\<close>

text \<open>A configuration, three users and a book, for evaluating the routes on concrete
  requests.\<close>

definition sample_env :: "nat \<Rightarrow> env" where
  "sample_env clock =
     \<lparr>JWT_SECRET = None, now = clock, currentYear = 2024,
      newObjectId = ''0000000000000000000000ff'', salt = ''s4lt'',
      isEmail = (\<lambda>s. CHR ''@'' \<in> set s),
      parseFloat = (\<lambda>s. map_option rat_of_int (intLiteral s)),
      castDate = (\<lambda>s. map_option nat (intLiteral s)),
      textMatch = (\<lambda>search fields. search \<in> set fields)\<rparr>"

definition alice :: user where
  "alice = \<lparr>user_id = ''0000000000000000000000a1'', username = ''alice'',
            email = ''alice@x.com'', password = Bcrypt ''s4lt'' ''secret1'', role = User,
            user_createdAt = 1000, user_updatedAt = 1000\<rparr>"

definition bob :: user where
  "bob = \<lparr>user_id = ''0000000000000000000000b2'', username = ''bob'',
          email = ''bob@x.com'', password = Bcrypt ''pepper'' ''hunter22'', role = User,
          user_createdAt = 2000, user_updatedAt = 2000\<rparr>"

definition admin_user :: user where
  "admin_user = \<lparr>user_id = ''0000000000000000000000c3'', username = ''admin'',
           email = ''admin@cis.kku.ac.th'', password = Bcrypt ''x'' ''password123'',
           role = Admin, user_createdAt = 500, user_updatedAt = 500\<rparr>"

definition dune :: book where
  "dune = \<lparr>book_id = ''0000000000000000000000d4'', title = ''Dune'',
           author = ''Frank Herbert'', description = None, genre = Some ''Fiction'',
           year = Some 1965, price = Some 10, available = True,
           addedBy = ''0000000000000000000000a1'',
           book_createdAt = 3000, book_updatedAt = 3000\<rparr>"

definition sample_db :: db where
  "sample_db = \<lparr>users = [alice, bob, admin_user], books = [dune]\<rparr>"

definition sample_request :: "auth_header option \<Rightarrow> http_method \<Rightarrow> string list
    \<Rightarrow> (string \<times> string) list \<Rightarrow> request" where
  "sample_request a m p kvs =
     \<lparr>authorization = a, req_method = m, path = p, query = Map.empty, body = map_of kvs\<rparr>"

section \<open>Properties\<close>

subsection \<open>Tokens\<close>

lemma generateToken_payload:
  "payload_of (generateToken e U) =
     Some \<lparr>userId = U, iat = now e div 1000, expires = now e div 1000 + 86400\<rparr>"
  by (simp add: generateToken_def jwt_sign_def payload_of_def Let_def)

text \<open>
  C4. A token issued for user id \<open>U\<close> carries \<open>U\<close> and an expiration equal to its issuance
  time plus 24 hours (86400 seconds), and verifying it under the same secret at any time
  before that expiration yields \<open>U\<close>.
\<close>

theorem C4_token_roundtrip:
  assumes "JWT_SECRET e' = JWT_SECRET e"
    and "payload_of (generateToken e U) = Some p"
    and "now e' div 1000 < expires p"
  shows "verify e' (generateToken e U) = Inr U \<and> userId p = U
           \<and> iat p = now e div 1000 \<and> expires p = iat p + 24 * 60 * 60"
  using assms
  by (auto simp: verify_def generateToken_def jwt_sign_def payload_of_def Let_def
      secretOrKey_def)

theorem C4_token_roundtrip_witness:
  "JWT_SECRET (sample_env 86399999) = JWT_SECRET (sample_env 0)
   \<and> payload_of (generateToken (sample_env 0) (user_id alice))
       = Some \<lparr>userId = user_id alice, iat = 0, expires = 86400\<rparr>
   \<and> verify (sample_env 86399999) (generateToken (sample_env 0) (user_id alice))
       = Inr (user_id alice)"
  using C4_token_roundtrip [of "sample_env 86399999" "sample_env 0" "user_id alice"
      "\<lparr>userId = user_id alice, iat = 0, expires = 86400\<rparr>"]
  by (simp add: generateToken_payload sample_env_def)

text \<open>
  C5. A token verified at a time strictly later than its issuance time plus 24 hours fails
  with ExpiredToken: not with InvalidToken, and not with success.
\<close>

theorem C5_token_expiry:
  assumes "JWT_SECRET e' = JWT_SECRET e"
    and "now e + 24 * 60 * 60 * 1000 < now e'"
  shows "verify e' (generateToken e U) = Inl ExpiredToken"
proof -
  have "now e div 1000 + 86400 \<le> now e' div 1000"
    using assms(2) by linarith
  then show ?thesis
    using assms(1)
    by (simp add: verify_def generateToken_def jwt_sign_def Let_def secretOrKey_def)
qed

theorem C5_token_expiry_witness:
  "JWT_SECRET (sample_env 86400001) = JWT_SECRET (sample_env 0)
   \<and> now (sample_env 0) + 24 * 60 * 60 * 1000 < now (sample_env 86400001)
   \<and> verify (sample_env 86400001) (generateToken (sample_env 0) (user_id alice))
       = Inl ExpiredToken"
  using C5_token_expiry [of "sample_env 86400001" "sample_env 0" "user_id alice"]
  by (simp add: sample_env_def)

text \<open>
  C7. A token issued for user id \<open>U\<close> and presented when the Credential Store holds no
  user with id \<open>U\<close> never authenticates: the middleware answers 401 and the handler behind
  it is not run. When the token is presented before its expiry, correctly signed, the
  failure is UnauthorizedAccess.
\<close>

theorem C7_stale_account:
  assumes "authorization req = Some (Bearer (generateToken e U))"
    and "JWT_SECRET e' = JWT_SECRET e"
    and "User_findById d U = None"
  shows "(now e' div 1000 < now e div 1000 + 24 * 60 * 60 \<longrightarrow>
            auth e' d req = Inl UnauthorizedAccess
            \<and> with_auth e' d req handler = (d, 401, AuthFailure UnauthorizedAccess))
         \<and> (\<forall>u. auth e' d req \<noteq> Inr u)
         \<and> (\<exists>err. with_auth e' d req handler = (d, 401, AuthFailure err))"
  using assms
  by (simp add: with_auth_def auth_def verify_def generateToken_def jwt_sign_def Let_def
      secretOrKey_def)

theorem C7_stale_account_witness:
  "auth (sample_env 60000) (sample_db\<lparr>users := [bob, admin_user]\<rparr>)
      (sample_request (Some (Bearer (generateToken (sample_env 0) (user_id alice)))) GET
         [''profile''] [])
     = Inl UnauthorizedAccess
   \<and> auth (sample_env 60000) sample_db
      (sample_request (Some (Bearer (generateToken (sample_env 0) (user_id alice)))) GET
         [''profile''] [])
     = Inr alice"
proof -
  have "User_findById (sample_db\<lparr>users := [bob, admin_user]\<rparr>) (user_id alice) = None"
    by (simp add: User_findById_def sample_db_def alice_def bob_def admin_user_def)
  then have "auth (sample_env 60000) (sample_db\<lparr>users := [bob, admin_user]\<rparr>)
      (sample_request (Some (Bearer (generateToken (sample_env 0) (user_id alice)))) GET
         [''profile''] [])
     = Inl UnauthorizedAccess"
    using C7_stale_account [of
        "sample_request (Some (Bearer (generateToken (sample_env 0) (user_id alice)))) GET
           [''profile''] []"
        "sample_env 0" "user_id alice" "sample_env 60000"
        "sample_db\<lparr>users := [bob, admin_user]\<rparr>"]
    by (simp add: sample_env_def sample_request_def)
  moreover have "auth (sample_env 60000) sample_db
      (sample_request (Some (Bearer (generateToken (sample_env 0) (user_id alice)))) GET
         [''profile''] [])
     = Inr alice"
    by (simp add: auth_def verify_def generateToken_def jwt_sign_def Let_def secretOrKey_def
        sample_env_def sample_request_def User_findById_def sample_db_def alice_def)
  ultimately show ?thesis by simp
qed

subsection \<open>Registration and login\<close>

lemma find_Some_ex: "\<exists>x\<in>set xs. P x \<Longrightarrow> \<exists>y. find P xs = Some y"
  by (cases "find P xs") (auto simp: find_None_iff)

text \<open>
  C6. A registration request whose username or email already belongs to a stored user is
  answered with status 400, the store is left as it was, and the response carries no token;
  when the request passes validation the message is the conflict message.
\<close>

theorem C6_register_conflict:
  assumes "\<exists>u\<in>set (users d). username u = field (body req) ''username''
                            \<or> email u = field (body req) ''email''"
  shows "fst (snd (register e d req)) = 400
         \<and> fst (register e d req) = d
         \<and> token_of (snd (register e d req)) = None
         \<and> (register_validation e (body req) = [] \<longrightarrow>
              snd (snd (register e d req))
                = Err ''User with this email or username already exists'')"
proof -
  from assms
  have "\<exists>x\<in>set (users d). email x = field (body req) ''email''
                          \<or> username x = field (body req) ''username''"
    by blast
  then have "\<exists>y. User_findOne_or d (field (body req) ''email'')
                  (field (body req) ''username'') = Some y"
    unfolding User_findOne_or_def by (rule find_Some_ex)
  then obtain y where
    "User_findOne_or d (field (body req) ''email'') (field (body req) ''username'') = Some y"
    by blast
  then show ?thesis
    by (simp add: register_def register_at_def Let_def token_of_def)
qed

theorem C6_register_conflict_witness:
  "register (sample_env 9000) sample_db
      (sample_request None POST [''register'']
         [(''username'', ''alice''), (''email'', ''other@x.com''), (''password'', ''secret2'')])
     = (sample_db, 400, Err ''User with this email or username already exists'')"
proof -
  define r where "r = sample_request None POST [''register'']
         [(''username'', ''alice''), (''email'', ''other@x.com''), (''password'', ''secret2'')]"
  have v: "register_validation (sample_env 9000) (body r) = []"
    by (simp add: r_def register_validation_def check_def field_def sample_env_def
        sample_request_def isLength_def matches_word_def isWordChar_def)
  have h: "\<exists>u\<in>set (users sample_db). username u = field (body r) ''username''
                            \<or> email u = field (body r) ''email''"
    by (simp add: r_def sample_db_def alice_def field_def sample_request_def)
  have "fst (register (sample_env 9000) sample_db r) = sample_db"
    and "fst (snd (register (sample_env 9000) sample_db r)) = 400"
    and "snd (snd (register (sample_env 9000) sample_db r))
           = Err ''User with this email or username already exists''"
    using C6_register_conflict [OF h, of "sample_env 9000"] v by blast+
  then have "register (sample_env 9000) sample_db r
     = (sample_db, 400, Err ''User with this email or username already exists'')"
    by (metis prod.collapse)
  then show ?thesis by (simp only: r_def)
qed

text \<open>
  C10. Among login requests that pass validation, one whose email matches no stored user
  and one whose email matches a user whose password does not verify get the same response:
  status 401 with the message \<^verbatim>\<open>Invalid email or password\<close>.
\<close>

theorem C10_login_no_account_oracle:
  assumes "login_validation e (body r1) = []"
    and "login_validation e (body r2) = []"
    and "User_findOne_email d (field (body r1) ''email'') = None"
    and "User_findOne_email d (field (body r2) ''email'') = Some u"
    and "comparePassword u (field (body r2) ''password'') = Inr False"
  shows "login e d r1 = (401, Err ''Invalid email or password'')
         \<and> login e d r2 = login e d r1"
  using assms by (simp add: login_def)

theorem C10_login_no_account_oracle_witness:
  "login (sample_env 0) sample_db
      (sample_request None POST [''login''] [(''email'', ''eve@x.com''), (''password'', ''secret1'')])
     = (401, Err ''Invalid email or password'')
   \<and> login (sample_env 0) sample_db
      (sample_request None POST [''login''] [(''email'', ''alice@x.com''), (''password'', ''wrong'')])
     = (401, Err ''Invalid email or password'')"
proof -
  let ?r1 = "sample_request None POST [''login'']
               [(''email'', ''eve@x.com''), (''password'', ''secret1'')]"
  let ?r2 = "sample_request None POST [''login'']
               [(''email'', ''alice@x.com''), (''password'', ''wrong'')]"
  have v1: "login_validation (sample_env 0) (body ?r1) = []"
    by (simp add: login_validation_def check_def field_def sample_env_def sample_request_def)
  have v2: "login_validation (sample_env 0) (body ?r2) = []"
    by (simp add: login_validation_def check_def field_def sample_env_def sample_request_def)
  have f1: "User_findOne_email sample_db (field (body ?r1) ''email'') = None"
    by (simp add: User_findOne_email_def field_def sample_request_def sample_db_def
        alice_def bob_def admin_user_def)
  have f2: "User_findOne_email sample_db (field (body ?r2) ''email'') = Some alice"
    by (simp add: User_findOne_email_def field_def sample_request_def sample_db_def
        alice_def bob_def admin_user_def)
  have c: "comparePassword alice (field (body ?r2) ''password'') = Inr False"
    by (simp add: comparePassword_def bcrypt_compare_def field_def sample_request_def alice_def)
  show ?thesis
    using C10_login_no_account_oracle [OF v1 v2 f1 f2 c] by simp
qed

subsection \<open>Profile update\<close>

lemma length_update_first: "length (update_first P f xs) = length xs"
  by (induction xs) auto

lemma map_update_first:
  "(\<And>x. P x \<Longrightarrow> g (f x) = g x) \<Longrightarrow> map g (update_first P f xs) = map g xs"
  by (induction xs) auto

lemma nth_update_first:
  "i < length xs \<Longrightarrow> \<not> P (xs ! i) \<Longrightarrow> update_first P f xs ! i = xs ! i"
proof (induction xs arbitrary: i)
  case Nil
  then show ?case by simp
next
  case (Cons x xs)
  then show ?case by (cases i) auto
qed

lemma User_findByIdAndUpdate_frame:
  assumes "User_findByIdAndUpdate e d i un em = Inr (d', r)"
  shows "books d' = books d
         \<and> map user_id (users d') = map user_id (users d)
         \<and> map role (users d') = map role (users d)
         \<and> map password (users d') = map password (users d)
         \<and> (\<forall>k<length (users d). user_id (users d ! k) \<noteq> i \<longrightarrow> users d' ! k = users d ! k)"
proof (cases "User_findById d i")
  case None
  with assms have "d' = d"
    by (auto simp: User_findByIdAndUpdate_def split: if_splits)
  then show ?thesis by simp
next
  case (Some u)
  define change where "change = (\<lambda>v::user. v\<lparr>username := (case un of None \<Rightarrow> username v | Some n \<Rightarrow> n),
                                 email := (case em of None \<Rightarrow> email v | Some m \<Rightarrow> m),
                                 user_updatedAt := now e\<rparr>)"
  from assms Some
  have d': "d' = d\<lparr>users := update_first (\<lambda>v. user_id v = i) change (users d)\<rparr>"
    by (auto simp: User_findByIdAndUpdate_def Let_def change_def split: if_splits)
  have "\<And>v. user_id (change v) = user_id v" "\<And>v. role (change v) = role v"
    "\<And>v. password (change v) = password v"
    by (simp_all add: change_def)
  then show ?thesis
    by (simp add: d' map_update_first nth_update_first)
qed

lemma nth_update_first_cases:
  "k < length xs \<Longrightarrow> update_first P f xs ! k = xs ! k \<or> update_first P f xs ! k = f (xs ! k)"
proof (induction xs arbitrary: k)
  case Nil
  then show ?case by simp
next
  case (Cons x xs)
  then show ?case by (cases k) auto
qed

lemma user_fields_refl:
  "\<exists>n m t. (v::user) = v\<lparr>username := n, email := m, user_updatedAt := t\<rparr>"
proof -
  have "v = v\<lparr>username := username v, email := email v, user_updatedAt := user_updatedAt v\<rparr>"
    by simp
  then show ?thesis by blast
qed

lemma User_findByIdAndUpdate_fields:
  assumes "User_findByIdAndUpdate e d i un em = Inr (d', r)" and "k < length (users d)"
  shows "\<exists>n m t. users d' ! k = (users d ! k)\<lparr>username := n, email := m, user_updatedAt := t\<rparr>"
proof (cases "User_findById d i")
  case None
  with assms have "d' = d"
    by (auto simp: User_findByIdAndUpdate_def split: if_splits)
  then show ?thesis using user_fields_refl by simp
next
  case (Some u)
  define change where "change = (\<lambda>v::user. v\<lparr>username := (case un of None \<Rightarrow> username v | Some n \<Rightarrow> n),
                                 email := (case em of None \<Rightarrow> email v | Some m \<Rightarrow> m),
                                 user_updatedAt := now e\<rparr>)"
  from assms Some
  have d': "users d' = update_first (\<lambda>v. user_id v = i) change (users d)"
    by (auto simp: User_findByIdAndUpdate_def Let_def change_def split: if_splits)
  from nth_update_first_cases [OF assms(2), of "\<lambda>v. user_id v = i" change]
  consider "users d' ! k = users d ! k" | "users d' ! k = change (users d ! k)"
    unfolding d' by blast
  then show ?thesis
  proof cases
    case 1
    then show ?thesis using user_fields_refl by simp
  next
    case 2
    then show ?thesis unfolding change_def by blast
  qed
qed

text \<open>
  C8. A profile update writes to no book and to no user record other than the requester's
  own; every user record after it is the record before it with at most the username, the
  email and the update timestamp changed, so the identifier, the role and the password hash
  of every record are as they were, whatever fields the request body holds.
\<close>

theorem C8_profile_update_frame:
  assumes "put_profile e d req_user req = (d', r)"
  shows "books d' = books d
         \<and> map user_id (users d') = map user_id (users d)
         \<and> map role (users d') = map role (users d)
         \<and> map password (users d') = map password (users d)
         \<and> (\<forall>k<length (users d).
               user_id (users d ! k) \<noteq> user_id req_user \<longrightarrow> users d' ! k = users d ! k)
         \<and> (\<forall>k<length (users d). \<exists>n m t.
               users d' ! k = (users d ! k)\<lparr>username := n, email := m, user_updatedAt := t\<rparr>)"
proof -
  have same: ?thesis if "d' = d"
    using that user_fields_refl by simp
  show ?thesis
  proof (cases "profile_validation e (body req) = []")
    case False
    with assms have "d' = d" by (simp add: put_profile_def Let_def)
    then show ?thesis by (rule same)
  next
    case True
    show ?thesis
    proof (cases "User_findByIdAndUpdate e d (user_id req_user)
                    (truthy (body req ''username'')) (truthy (body req ''email''))")
      case (Inl err)
      with assms True have "d' = d" by (simp add: put_profile_def Let_def)
      then show ?thesis by (rule same)
    next
      case (Inr res)
      obtain d2 u2 where res: "res = (d2, u2)" by (cases res)
      with assms True Inr have "d' = d2"
        by (cases u2) (simp_all add: put_profile_def Let_def)
      with Inr res have upd: "User_findByIdAndUpdate e d (user_id req_user)
          (truthy (body req ''username'')) (truthy (body req ''email'')) = Inr (d', u2)"
        by simp
      from User_findByIdAndUpdate_frame [OF upd] User_findByIdAndUpdate_fields [OF upd]
      show ?thesis by blast
    qed
  qed
qed

theorem C8_profile_update_frame_witness:
  "put_profile (sample_env 7000) sample_db alice
      (sample_request None PUT [''profile'']
         [(''username'', ''alice2''), (''role'', ''admin''), (''password'', ''x''),
          (''_id'', ''0000000000000000000000b2'')])
     = (sample_db\<lparr>users := [alice\<lparr>username := ''alice2'', user_updatedAt := 7000\<rparr>, bob,
                               admin_user]\<rparr>,
        200, ProfileUpdated ''Profile updated successfully''
               (toJSON (alice\<lparr>username := ''alice2'', user_updatedAt := 7000\<rparr>)))
   \<and> map role [alice\<lparr>username := ''alice2'', user_updatedAt := 7000\<rparr>, bob, admin_user]
       = map role (users sample_db)
   \<and> map password [alice\<lparr>username := ''alice2'', user_updatedAt := 7000\<rparr>, bob, admin_user]
       = map password (users sample_db)"
proof -
  have eq: "put_profile (sample_env 7000) sample_db alice
      (sample_request None PUT [''profile'']
         [(''username'', ''alice2''), (''role'', ''admin''), (''password'', ''x''),
          (''_id'', ''0000000000000000000000b2'')])
     = (sample_db\<lparr>users := [alice\<lparr>username := ''alice2'', user_updatedAt := 7000\<rparr>, bob,
                               admin_user]\<rparr>,
        200, ProfileUpdated ''Profile updated successfully''
               (toJSON (alice\<lparr>username := ''alice2'', user_updatedAt := 7000\<rparr>)))"
    by (simp add: put_profile_def profile_validation_def optional_def check_def isLength_def
        field_def truthy_def User_findByIdAndUpdate_def username_valid_def matches_word_def
        isWordChar_def User_findById_def sample_env_def sample_request_def sample_db_def
        alice_def bob_def admin_user_def Let_def)
  from C8_profile_update_frame [OF eq]
  have "map role (users (sample_db\<lparr>users := [alice\<lparr>username := ''alice2'',
            user_updatedAt := 7000\<rparr>, bob, admin_user]\<rparr>)) = map role (users sample_db)"
    and "map password (users (sample_db\<lparr>users := [alice\<lparr>username := ''alice2'',
            user_updatedAt := 7000\<rparr>, bob, admin_user]\<rparr>)) = map password (users sample_db)"
    by blast+
  with eq show ?thesis by simp
qed

subsection \<open>Reading books\<close>

lemma get_books_authorization:
  "get_books e d (req\<lparr>authorization := a\<rparr>) = get_books e d req"
  by (simp add: get_books_def)

lemma get_books_status: "fst (get_books e d req) \<in> {200, 500}"
  by (simp add: get_books_def Let_def split: sum.splits)

lemma get_book_status: "fst (get_book d i) \<in> {200, 404, 500}"
  by (simp add: get_book_def split: sum.splits option.splits)

lemma get_dune: "get_book sample_db ''0000000000000000000000d4''
   = (200, BookOnly (dune, Some (''0000000000000000000000a1'', ''alice'', ''alice@x.com'')))"
  by (simp add: get_book_def Book_findById_def castObjectId_def isHex_def lowerHex_def
      populate_def User_findById_def sample_db_def dune_def alice_def)

text \<open>
  C9. A request to list a page of books or to fetch one book by id reaches its handler
  with no identity: the router puts no \<open>auth\<close> before it, the response is the same
  whatever the \<^verbatim>\<open>Authorization\<close> header holds (also none), it is never a 401 or a 403,
  and the store is left as it was.
\<close>

theorem C9_read_without_identity:
  assumes "req_method req = GET" and "path req = [] \<or> length (path req) = 1"
  shows "books_router e d (req\<lparr>authorization := a\<rparr>) = books_router e d req
         \<and> books_router e d req
             = (d, if path req = [] then get_books e d req else get_book d (hd (path req)))
         \<and> fst (snd (books_router e d req)) \<in> {200, 404, 500}"
proof (cases "path req = []")
  case True
  with assms(1) have "books_router e d req = (d, get_books e d req)"
    and "books_router e d (req\<lparr>authorization := a\<rparr>) = (d, get_books e d req)"
    by (simp_all add: books_router_def get_books_authorization)
  with True show ?thesis
    using get_books_status [of e d req] by auto
next
  case False
  with assms have "books_router e d req = (d, get_book d (hd (path req)))"
    and "books_router e d (req\<lparr>authorization := a\<rparr>) = (d, get_book d (hd (path req)))"
    by (simp_all add: books_router_def)
  with False show ?thesis
    using get_book_status [of d "hd (path req)"] by auto
qed

theorem C9_read_without_identity_witness:
  "books_router (sample_env 4000) sample_db
      (sample_request None GET [''0000000000000000000000d4''] [])
     = (sample_db, 200,
        BookOnly (dune, Some (''0000000000000000000000a1'', ''alice'', ''alice@x.com'')))
   \<and> books_router (sample_env 4000) sample_db
      (sample_request (Some (Bearer (Malformed ''junk''))) GET [''0000000000000000000000d4''] [])
     = (sample_db, 200,
        BookOnly (dune, Some (''0000000000000000000000a1'', ''alice'', ''alice@x.com'')))"
proof -
  let ?r = "sample_request None GET [''0000000000000000000000d4''] []"
  have m: "req_method ?r = GET" and p: "path ?r = [] \<or> length (path ?r) = 1"
    by (simp_all add: sample_request_def)
  have a: "?r\<lparr>authorization := Some (Bearer (Malformed ''junk''))\<rparr>
           = sample_request (Some (Bearer (Malformed ''junk''))) GET
               [''0000000000000000000000d4''] []"
    by (simp add: sample_request_def)
  have h: "hd (path ?r) = ''0000000000000000000000d4''" "path ?r \<noteq> []"
    by (simp_all add: sample_request_def)
  show ?thesis
    using C9_read_without_identity [OF m p, of "sample_env 4000" sample_db
        "Some (Bearer (Malformed ''junk''))"]
    by (simp only: a h get_dune if_False)
qed

subsection \<open>Writing to books\<close>

lemma find_SomeD: "find P xs = Some x \<Longrightarrow> P x"
  by (auto simp: find_Some_iff)

lemma find_dune: "Book_findById sample_db ''0000000000000000000000d4'' = Inr (Some dune)"
  by (simp add: Book_findById_def castObjectId_def isHex_def lowerHex_def sample_db_def
      dune_def)

lemma auth_alice: "auth (sample_env 5000) sample_db
      (sample_request (Some (Bearer (generateToken (sample_env 0) (user_id alice)))) m p kvs)
     = Inr alice"
  by (simp add: auth_def verify_def generateToken_def jwt_sign_def Let_def secretOrKey_def
      sample_env_def sample_request_def User_findById_def sample_db_def alice_def)

lemma auth_bob: "auth (sample_env 5000) sample_db
      (sample_request (Some (Bearer (generateToken (sample_env 0) (user_id bob)))) m p kvs)
     = Inr bob"
  by (simp add: auth_def verify_def generateToken_def jwt_sign_def Let_def secretOrKey_def
      sample_env_def sample_request_def User_findById_def sample_db_def alice_def bob_def)

lemma long_title: "put_book_validation (sample_env 5000)
      (body (sample_request a PUT p [(''title'', replicate 201 (CHR ''x''))]))
     = [(''title'', ''Title must be less than 200 characters'')]"
  by (simp add: put_book_validation_def book_optional_validation_def optional_def check_def
      isLength_def field_def sample_request_def)

text \<open>
  C1, as the routes implement it. On an existing book, a delete request is carried out
  when the requester's id equals the book's \<open>addedBy\<close> or the requester's role is admin,
  and is otherwise refused with 403 and the store left as it was. The same holds of an
  update request whose body passes the route's validation chain: for the owner or an admin
  the update is handed to the store (200 with the updated book, or 500 when the store
  refuses it, never 403), for anyone else the answer is 403 and the store is left as it was.
  An update request whose body fails validation is answered 400 with the validation errors,
  whoever sends it, and the store is left as it was.
\<close>

theorem C1_owner_or_admin:
  assumes "Book_findById d i = Inr (Some book)"
  shows "(put_book_validation e (body req) = [] \<longrightarrow>
            (if addedBy book = user_id req_user \<or> role req_user = Admin
             then fst (snd (put_book e d req_user i req)) \<noteq> 403
                  \<and> put_book e d req_user i req =
                      (case Book_findByIdAndUpdate e d i (body req) of
                         Inl err \<Rightarrow> (d, 500, Err ''Failed to update book'')
                       | Inr (d', updatedBook) \<Rightarrow>
                           (d', 200, BookMessage ''Book updated successfully''
                                      (map_option (populate d') updatedBook)))
             else put_book e d req_user i req =
                    (d, 403, Err ''Access denied. You can only update your own books.'')))
         \<and> (put_book_validation e (body req) \<noteq> [] \<longrightarrow>
              put_book e d req_user i req =
                (d, 400, ValidationErrors (put_book_validation e (body req))))
         \<and> (if addedBy book = user_id req_user \<or> role req_user = Admin
            then delete_book d req_user i =
                   (d\<lparr>books := delete_first (\<lambda>k. book_id k = book_id book) (books d)\<rparr>,
                    200, Message ''Book deleted successfully'')
            else delete_book d req_user i =
                   (d, 403, Err ''Access denied. You can only delete your own books.''))"
proof -
  from assms obtain j where j: "castObjectId i = Some j"
    and f: "find (\<lambda>k. book_id k = j) (books d) = Some book"
    by (auto simp: Book_findById_def split: option.splits)
  from f have bj: "book_id book = j" by (rule find_SomeD)
  have del: "Book_findByIdAndDelete d i
               = Inr (d\<lparr>books := delete_first (\<lambda>k. book_id k = book_id book) (books d)\<rparr>)"
    by (simp add: Book_findByIdAndDelete_def j bj)
  have "delete_book d req_user i =
          (if addedBy book \<noteq> user_id req_user \<and> role req_user \<noteq> Admin
           then (d, 403, Err ''Access denied. You can only delete your own books.'')
           else (d\<lparr>books := delete_first (\<lambda>k. book_id k = book_id book) (books d)\<rparr>,
                 200, Message ''Book deleted successfully''))"
    by (simp add: delete_book_def assms del)
  moreover have "put_book_validation e (body req) = [] \<Longrightarrow>
      put_book e d req_user i req =
          (if addedBy book \<noteq> user_id req_user \<and> role req_user \<noteq> Admin
           then (d, 403, Err ''Access denied. You can only update your own books.'')
           else (case Book_findByIdAndUpdate e d i (body req) of
                         Inl err \<Rightarrow> (d, 500, Err ''Failed to update book'')
                       | Inr (d', updatedBook) \<Rightarrow>
                           (d', 200, BookMessage ''Book updated successfully''
                                      (map_option (populate d') updatedBook))))"
    by (simp add: put_book_def assms Let_def)
  moreover have "fst (snd (case Book_findByIdAndUpdate e d i (body req) of
                         Inl err \<Rightarrow> (d, 500::nat, Err ''Failed to update book'')
                       | Inr (d', updatedBook) \<Rightarrow>
                           (d', 200, BookMessage ''Book updated successfully''
                                      (map_option (populate d') updatedBook)))) \<noteq> 403"
    by (simp split: sum.splits prod.splits)
  moreover have "put_book_validation e (body req) \<noteq> [] \<Longrightarrow>
      put_book e d req_user i req =
        (d, 400, ValidationErrors (put_book_validation e (body req)))"
    by (simp add: put_book_def Let_def)
  ultimately show ?thesis by auto
qed

theorem C1_owner_or_admin_witness:
  "put_book (sample_env 5000) sample_db bob ''0000000000000000000000d4''
      (sample_request None PUT [''0000000000000000000000d4''] [(''title'', ''Dune II'')])
     = (sample_db, 403, Err ''Access denied. You can only update your own books.'')
   \<and> delete_book sample_db bob ''0000000000000000000000d4''
     = (sample_db, 403, Err ''Access denied. You can only delete your own books.'')
   \<and> delete_book sample_db admin_user ''0000000000000000000000d4''
     = (sample_db\<lparr>books := []\<rparr>, 200, Message ''Book deleted successfully'')"
proof -
  let ?r = "sample_request None PUT [''0000000000000000000000d4''] [(''title'', ''Dune II'')]"
  have v: "put_book_validation (sample_env 5000) (body ?r) = []"
    by (simp add: put_book_validation_def book_optional_validation_def optional_def check_def
        isLength_def field_def sample_request_def)
  have b: "\<not> (addedBy dune = user_id bob \<or> role bob = Admin)"
    by (simp add: dune_def bob_def)
  have a: "addedBy dune = user_id admin_user \<or> role admin_user = Admin"
    by (simp add: admin_user_def)
  have d: "delete_first (\<lambda>k. book_id k = book_id dune) (books sample_db) = []"
    by (simp add: sample_db_def)
  from C1_owner_or_admin [OF find_dune, of "sample_env 5000" ?r bob] v b
  have "put_book (sample_env 5000) sample_db bob ''0000000000000000000000d4'' ?r
          = (sample_db, 403, Err ''Access denied. You can only update your own books.'')"
    and "delete_book sample_db bob ''0000000000000000000000d4''
          = (sample_db, 403, Err ''Access denied. You can only delete your own books.'')"
    by (simp_all only: if_False simp_thms)
  moreover from C1_owner_or_admin [OF find_dune, of "sample_env 5000" ?r admin_user] a
  have "delete_book sample_db admin_user ''0000000000000000000000d4''
     = (sample_db\<lparr>books := []\<rparr>, 200, Message ''Book deleted successfully'')"
    by (simp only: if_True d simp_thms)
  ultimately show ?thesis by (simp only: simp_thms)
qed

text \<open>
  C1, as stated, fails for update requests: the validation chain stands before the
  ownership check, so a requester who is neither owner nor admin and sends a title of 201
  characters is answered 400, not 403.
\<close>

theorem C1_counterexample:
  "Book_findById sample_db ''0000000000000000000000d4'' = Inr (Some dune)
   \<and> addedBy dune \<noteq> user_id bob \<and> role bob \<noteq> Admin
   \<and> auth (sample_env 5000) sample_db
        (sample_request (Some (Bearer (generateToken (sample_env 0) (user_id bob)))) PUT
           [''0000000000000000000000d4''] [(''title'', replicate 201 (CHR ''x''))])
       = Inr bob
   \<and> books_router (sample_env 5000) sample_db
        (sample_request (Some (Bearer (generateToken (sample_env 0) (user_id bob)))) PUT
           [''0000000000000000000000d4''] [(''title'', replicate 201 (CHR ''x''))])
       = (sample_db, 400,
          ValidationErrors [(''title'', ''Title must be less than 200 characters'')])"
proof -
  have "books_router (sample_env 5000) sample_db
        (sample_request (Some (Bearer (generateToken (sample_env 0) (user_id bob)))) PUT
           [''0000000000000000000000d4''] [(''title'', replicate 201 (CHR ''x''))])
       = put_book (sample_env 5000) sample_db bob ''0000000000000000000000d4''
          (sample_request (Some (Bearer (generateToken (sample_env 0) (user_id bob)))) PUT
           [''0000000000000000000000d4''] [(''title'', replicate 201 (CHR ''x''))])"
    by (simp add: books_router_def with_auth_def auth_bob) (simp add: sample_request_def)
  then show ?thesis
    by (simp add: put_book_def long_title auth_bob find_dune) (simp add: dune_def bob_def)
qed

text \<open>
  The create route writes \<open>addedBy\<close> itself, after spreading the body: whatever the body
  holds, the new book belongs to the requester.
\<close>

lemma post_book_owner:
  assumes "post_book e d req_user req = (d', 201, r)"
  shows "\<exists>k. books d' = books d @ [k] \<and> addedBy k = user_id req_user"
  using assms
  by (auto simp: post_book_def Book_save_def Let_def
      split: if_splits sum.splits prod.splits)

lemma reassign_valid: "put_book_validation (sample_env 5000)
      (body (sample_request a PUT p [(''addedBy'', ''0000000000000000000000b2'')])) = []"
  by (simp add: put_book_validation_def book_optional_validation_def optional_def check_def
      field_def sample_request_def)

lemma reassign_cast: "book_cast (sample_env 5000)
      (body (sample_request a PUT p [(''addedBy'', ''0000000000000000000000b2'')]))
     = Inr \<lparr>set_id = None, set_title = None, set_author = None, set_description = None,
            set_genre = None, set_year = None, set_price = None, set_available = None,
            set_addedBy = Some ''0000000000000000000000b2'', set_createdAt = None\<rparr>"
  by (simp add: book_cast_def cast_fails_def castObjectId_def isHex_def lowerHex_def
      sample_request_def)

lemma reassign_store: "Book_findByIdAndUpdate (sample_env 5000) sample_db
      ''0000000000000000000000d4''
      (body (sample_request a PUT p [(''addedBy'', ''0000000000000000000000b2'')]))
     = Inr (sample_db\<lparr>books := [dune\<lparr>addedBy := ''0000000000000000000000b2'',
                                          book_updatedAt := 5000\<rparr>]\<rparr>,
            Some (dune\<lparr>addedBy := ''0000000000000000000000b2'', book_updatedAt := 5000\<rparr>))"
  unfolding Book_findByIdAndUpdate_def reassign_cast
  by (simp add: book_patch_valid_def when_set_def apply_patch_def or_else_def keep_or_def
      castObjectId_def isHex_def lowerHex_def sample_db_def dune_def sample_env_def)

text \<open>
  C2. The update route hands the whole body to \<^verbatim>\<open>findByIdAndUpdate\<close>; \<open>addedBy\<close> is a
  path of the schema, so an accepted update whose body names another user changes the
  owner reference. Here alice, the owner of the book, makes bob its owner.
\<close>

theorem C2_owner_reassigned:
  "auth (sample_env 5000) sample_db
      (sample_request (Some (Bearer (generateToken (sample_env 0) (user_id alice)))) PUT
         [''0000000000000000000000d4''] [(''addedBy'', ''0000000000000000000000b2'')])
     = Inr alice
   \<and> addedBy dune = user_id alice
   \<and> books_router (sample_env 5000) sample_db
      (sample_request (Some (Bearer (generateToken (sample_env 0) (user_id alice)))) PUT
         [''0000000000000000000000d4''] [(''addedBy'', ''0000000000000000000000b2'')])
     = (sample_db\<lparr>books := [dune\<lparr>addedBy := user_id bob, book_updatedAt := 5000\<rparr>]\<rparr>,
        200, BookMessage ''Book updated successfully''
               (Some (dune\<lparr>addedBy := user_id bob, book_updatedAt := 5000\<rparr>,
                      Some (user_id bob, ''bob'', ''bob@x.com''))))
   \<and> user_id bob \<noteq> user_id alice"
proof -
  have "books_router (sample_env 5000) sample_db
      (sample_request (Some (Bearer (generateToken (sample_env 0) (user_id alice)))) PUT
         [''0000000000000000000000d4''] [(''addedBy'', ''0000000000000000000000b2'')])
    = put_book (sample_env 5000) sample_db alice ''0000000000000000000000d4''
      (sample_request (Some (Bearer (generateToken (sample_env 0) (user_id alice)))) PUT
         [''0000000000000000000000d4''] [(''addedBy'', ''0000000000000000000000b2'')])"
    by (simp add: books_router_def with_auth_def auth_alice) (simp add: sample_request_def)
  moreover have "put_book (sample_env 5000) sample_db alice ''0000000000000000000000d4''
      (sample_request (Some (Bearer (generateToken (sample_env 0) (user_id alice)))) PUT
         [''0000000000000000000000d4''] [(''addedBy'', ''0000000000000000000000b2'')])
     = (sample_db\<lparr>books := [dune\<lparr>addedBy := user_id bob, book_updatedAt := 5000\<rparr>]\<rparr>,
        200, BookMessage ''Book updated successfully''
               (Some (dune\<lparr>addedBy := user_id bob, book_updatedAt := 5000\<rparr>,
                      Some (user_id bob, ''bob'', ''bob@x.com''))))"
    by (simp add: put_book_def reassign_valid find_dune reassign_store)
       (simp add: populate_def User_findById_def sample_db_def dune_def alice_def bob_def)
  ultimately show ?thesis
    by (simp add: auth_alice) (simp add: dune_def alice_def bob_def)
qed

text \<open>
  C3. When another registration of the same username is stored between this handler's
  \<^verbatim>\<open>findOne\<close> and its \<^verbatim>\<open>save\<close>, the store raises its duplicate-key error and the
  handler's \<^verbatim>\<open>catch\<close> answers 500 with \<^verbatim>\<open>Registration failed\<close>.
\<close>

theorem C3_duplicate_key_is_500:
  "User_findOne_or \<lparr>users = [bob], books = []\<rparr> ''alice@x.com'' ''alice'' = None
   \<and> register_at (sample_env 1000) \<lparr>users = [bob], books = []\<rparr>
        \<lparr>users = [bob, alice], books = []\<rparr>
        (sample_request None POST [''register'']
           [(''username'', ''alice''), (''email'', ''alice@x.com''), (''password'', ''secret1'')])
     = (\<lparr>users = [bob, alice], books = []\<rparr>, 500, Err ''Registration failed'')
   \<and> User_save (sample_env 1000) \<lparr>users = [bob, alice], books = []\<rparr>
        ''alice'' ''alice@x.com'' ''secret1'' = Inl DuplicateKey"
  by (simp add: register_at_def register_validation_def check_def field_def isLength_def
      matches_word_def isWordChar_def User_findOne_or_def User_save_def username_valid_def
      bcrypt_hash_def sample_env_def sample_request_def alice_def bob_def Let_def)

end
